theory Spec2Isabelle
  imports Main "HOL-Library.Sublist"
begin

section \<open>JavaScript values and the host environment\<close>

text \<open>
  The library (\<^verbatim>\<open>src/diagnostics_manager.js\<close>) forwards every call to the host object
  \<^verbatim>\<open>chrome.os.diagnostics\<close>. Host data is modelled by the values below. An object is the
  list of its own properties; inherited built-in properties are not represented (none of the
  names the library reads, \<^verbatim>\<open>os\<close>, \<^verbatim>\<open>diagnostics\<close>, \<^verbatim>\<open>id\<close> and the entry point names, is one).
  Numbers are the integers. \<open>JFun\<close> is a host function: what a call of it does is given by
  the backend of the world, below. \<open>JError m\<close> is \<^verbatim>\<open>new Error(m)\<close>; \<open>JTypeError\<close> is the
  TypeError the engine raises itself (its message is engine specific and left out).
\<close>

datatype jsval =
    JUndefined
  | JNull
  | JBool bool
  | JNum int
  | JStr string
  | JObj "(string \<times> jsval) list"
  | JFun
  | JError string
  | JTypeError

text \<open>
  An expression either throws a value (\<open>Inl\<close>) or completes with a result (\<open>Inr\<close>).
\<close>

type_synonym 'a completion = "jsval + 'a"

text \<open>The truth value JavaScript gives a value in \<^verbatim>\<open>!v\<close> and \<^verbatim>\<open>v && w\<close>.\<close>

fun truthy :: "jsval \<Rightarrow> bool" where
  "truthy JUndefined = False"
| "truthy JNull = False"
| "truthy (JBool b) = b"
| "truthy (JNum n) = (n \<noteq> 0)"
| "truthy (JStr s) = (s \<noteq> [])"
| "truthy (JObj ps) = True"
| "truthy JFun = True"
| "truthy (JError m) = True"
| "truthy JTypeError = True"

fun typeof :: "jsval \<Rightarrow> string" where
  "typeof JUndefined = ''undefined''"
| "typeof JNull = ''object''"
| "typeof (JBool b) = ''boolean''"
| "typeof (JNum n) = ''number''"
| "typeof (JStr s) = ''string''"
| "typeof (JObj ps) = ''object''"
| "typeof JFun = ''function''"
| "typeof (JError m) = ''object''"
| "typeof JTypeError = ''object''"

text \<open>
  Property read \<^verbatim>\<open>v.k\<close> and \<^verbatim>\<open>v[k]\<close>: a TypeError on \<^verbatim>\<open>undefined\<close> and \<^verbatim>\<open>null\<close>, the own
  property of an object, \<^verbatim>\<open>undefined\<close> for a property that is not there and for every other
  value.
\<close>

fun get_prop :: "jsval \<Rightarrow> string \<Rightarrow> jsval completion" where
  "get_prop JUndefined k = Inl JTypeError"
| "get_prop JNull k = Inl JTypeError"
| "get_prop (JObj ps) k = Inr (case map_of ps k of None \<Rightarrow> JUndefined | Some v \<Rightarrow> v)"
| "get_prop v k = Inr JUndefined"

text \<open>Sequencing of two evaluations: the second one runs only if the first did not throw.\<close>

definition and_then :: "'a completion \<Rightarrow> ('a \<Rightarrow> 'b completion) \<Rightarrow> 'b completion" where
  "and_then c f = (case c of Inl e \<Rightarrow> Inl e | Inr v \<Rightarrow> f v)"

text \<open>
  \<^verbatim>\<open>a && b\<close>: the value of \<^verbatim>\<open>a\<close> when it is falsy, otherwise the value of \<^verbatim>\<open>b\<close>. The second
  argument stands for the evaluation of \<^verbatim>\<open>b\<close>, which is only looked at when \<^verbatim>\<open>a\<close> is truthy.
\<close>

definition js_and :: "jsval completion \<Rightarrow> jsval completion \<Rightarrow> jsval completion" where
  "js_and a b = and_then a (\<lambda>v. if truthy v then b else Inr v)"

text \<open>
  The three paths the library reads below the global \<^verbatim>\<open>chrome\<close>:
  \<^verbatim>\<open>chrome.os\<close>, \<^verbatim>\<open>chrome.os.diagnostics\<close> and \<^verbatim>\<open>chrome.os.diagnostics[functionName]\<close>.
\<close>

definition chrome_os :: "jsval \<Rightarrow> jsval completion" where
  "chrome_os g = get_prop g ''os''"

definition chrome_os_diagnostics :: "jsval \<Rightarrow> jsval completion" where
  "chrome_os_diagnostics g = and_then (chrome_os g) (\<lambda>os. get_prop os ''diagnostics'')"

definition chrome_os_diagnostics_member :: "jsval \<Rightarrow> string \<Rightarrow> jsval completion" where
  "chrome_os_diagnostics_member g functionName =
     and_then (chrome_os_diagnostics g) (\<lambda>d. get_prop d functionName)"

text \<open>
  An entry point is present and callable when \<^verbatim>\<open>chrome.os.diagnostics[functionName]\<close> can
  be read and is a function. This is a statement about the host alone; that the probe of the
  library decides it is proved below.
\<close>

definition callable :: "jsval \<Rightarrow> string \<Rightarrow> bool" where
  "callable g functionName =
     (case chrome_os_diagnostics_member g functionName of
        Inl e \<Rightarrow> False
      | Inr f \<Rightarrow> f = JFun)"

section \<open>Promises, the backend and the world\<close>

text \<open>
  A promise is identified with what becomes of it: fulfilled with a value, rejected with a
  value, or never settled.
\<close>

datatype 'a settlement = Fulfilled 'a | Rejected jsval | Pending

text \<open>
  A call of a host entry point is its name and its argument list. The entry points of
  \<^verbatim>\<open>chrome.os.diagnostics\<close> are asynchronous: a call either throws at once or returns a promise.
  The backend decides which, from the calls issued before and the call itself; since the list
  of earlier calls is different at every call, this puts no restriction on what a backend
  answers in one run.
\<close>

type_synonym call = "string \<times> jsval list"

datatype outcome = Throws jsval | Returns "jsval settlement"

text \<open>
  The world is the value of the global \<^verbatim>\<open>chrome\<close>, the backend behind its functions, and the
  calls issued so far, oldest first. The library only ever adds to the calls. (A global that
  is not declared at all makes the engine raise a ReferenceError where a global holding
  \<^verbatim>\<open>undefined\<close> gives the TypeError of this model; the statements below are about hosts whose
  \<^verbatim>\<open>chrome\<close> is an object.)
\<close>

record world =
  chrome :: jsval
  backend :: "call list \<Rightarrow> call \<Rightarrow> outcome"
  calls :: "call list"

text \<open>
  \<^verbatim>\<open>chrome.os.diagnostics.functionName(args)\<close>: the path is read (a TypeError if a step of it
  is \<^verbatim>\<open>undefined\<close> or \<^verbatim>\<open>null\<close>), a TypeError if what is found is not a function, and otherwise
  the call is issued: it is appended to the calls of the world and the backend answers.
\<close>

definition call_diagnostics ::
  "string \<Rightarrow> jsval list \<Rightarrow> world \<Rightarrow> jsval settlement completion \<times> world" where
  "call_diagnostics functionName args w =
     (case chrome_os_diagnostics_member (chrome w) functionName of
        Inl e \<Rightarrow> (Inl e, w)
      | Inr f \<Rightarrow>
          if typeof f = ''function''
          then (case backend w (calls w) (functionName, args) of
                  Throws e \<Rightarrow> (Inl e, w\<lparr>calls := calls w @ [(functionName, args)]\<rparr>)
                | Returns p \<Rightarrow> (Inr p, w\<lparr>calls := calls w @ [(functionName, args)]\<rparr>))
          else (Inl JTypeError, w))"

text \<open>
  The promise of an \<^verbatim>\<open>async\<close> function whose body threw, or returned a promise: rejected
  with the thrown value, or settled as the returned promise is.
\<close>

definition async_return :: "'a settlement completion \<Rightarrow> 'a settlement" where
  "async_return c = (case c of Inl e \<Rightarrow> Rejected e | Inr p \<Rightarrow> p)"

section \<open>The capability probe and the error message\<close>

text \<open>
  \<^verbatim>\<open>
  function isSupported(functionName) {
    return chrome.os && chrome.os.diagnostics &&
        chrome.os.diagnostics[functionName] &&
        (typeof chrome.os.diagnostics[functionName] === 'function');
  }
  \<close>
\<close>

definition isSupported :: "jsval \<Rightarrow> string \<Rightarrow> jsval completion" where
  "isSupported g functionName =
     js_and (chrome_os g)
       (js_and (chrome_os_diagnostics g)
          (js_and (chrome_os_diagnostics_member g functionName)
             (and_then (chrome_os_diagnostics_member g functionName)
                (\<lambda>f. Inr (JBool (typeof f = ''function''))))))"

text \<open>
  \<^verbatim>\<open>
  function getErrorMessage(functionName) {
    return 'DPSL: chrome.os.diagnostics.' + functionName + '() is not found.' +
      ' Consider updating Google Chrome.';
  }
  \<close>
\<close>

definition getErrorMessage :: "string \<Rightarrow> string" where
  "getErrorMessage functionName =
     ''DPSL: chrome.os.diagnostics.'' @ functionName @ ''() is not found.'' @
     '' Consider updating Google Chrome.''"

section \<open>The routine handle\<close>

text \<open>
  \<^verbatim>\<open>
  const ROUTINE_COMMAND_TYPE = {
    CANCEL: 'cancel', REMOVE: 'remove', RESUME: 'resume', GET_STATUS: 'status',
  };
  \<close>
\<close>

definition ROUTINE_COMMAND_TYPE_CANCEL :: string where
  "ROUTINE_COMMAND_TYPE_CANCEL = ''cancel''"

definition ROUTINE_COMMAND_TYPE_REMOVE :: string where
  "ROUTINE_COMMAND_TYPE_REMOVE = ''remove''"

definition ROUTINE_COMMAND_TYPE_RESUME :: string where
  "ROUTINE_COMMAND_TYPE_RESUME = ''resume''"

definition ROUTINE_COMMAND_TYPE_GET_STATUS :: string where
  "ROUTINE_COMMAND_TYPE_GET_STATUS = ''status''"

text \<open>
  An instance of \<^verbatim>\<open>class Routine\<close> has the one attribute \<^verbatim>\<open>id\<close> (here \<open>id_attr\<close>, since
  \<open>id\<close> is the identity function of HOL). The constructor stores its argument.
\<close>

record Routine =
  id_attr :: jsval

definition Routine_constructor :: "jsval \<Rightarrow> Routine" where
  "Routine_constructor i = \<lparr>id_attr = i\<rparr>"

text \<open>
  A method of the handle takes the object \<^verbatim>\<open>this\<close> and the world, and gives back the promise
  it returns together with \<^verbatim>\<open>this\<close> and the world as the method leaves them.

  \<^verbatim>\<open>
  async _getRoutineUpdate(command) {
    const request = { id: this.id, command: command };
    return chrome.os.diagnostics.getRoutineUpdate(request);
  }
  \<close>
\<close>

definition Routine_getRoutineUpdate ::
  "Routine \<Rightarrow> string \<Rightarrow> world \<Rightarrow> jsval settlement \<times> Routine \<times> world" where
  "Routine_getRoutineUpdate this command w =
     (let request = JObj [(''id'', id_attr this), (''command'', JStr command)] in
      case call_diagnostics ''getRoutineUpdate'' [request] w of
        (r, w') \<Rightarrow> (async_return r, this, w'))"

text \<open>\<^verbatim>\<open>async getStatus() { return this._getRoutineUpdate(ROUTINE_COMMAND_TYPE.GET_STATUS); }\<close>\<close>

definition Routine_getStatus :: "Routine \<Rightarrow> world \<Rightarrow> jsval settlement \<times> Routine \<times> world" where
  "Routine_getStatus this w =
     (case Routine_getRoutineUpdate this ROUTINE_COMMAND_TYPE_GET_STATUS w of
        (p, this', w') \<Rightarrow> (async_return (Inr p), this', w'))"

text \<open>\<^verbatim>\<open>async resume() { return this._getRoutineUpdate(ROUTINE_COMMAND_TYPE.RESUME); }\<close>\<close>

definition Routine_resume :: "Routine \<Rightarrow> world \<Rightarrow> jsval settlement \<times> Routine \<times> world" where
  "Routine_resume this w =
     (case Routine_getRoutineUpdate this ROUTINE_COMMAND_TYPE_RESUME w of
        (p, this', w') \<Rightarrow> (async_return (Inr p), this', w'))"

text \<open>
  \<^verbatim>\<open>
  async stop() {
    this._getRoutineUpdate(ROUTINE_COMMAND_TYPE.CANCEL);
    return this._getRoutineUpdate(ROUTINE_COMMAND_TYPE.REMOVE);
  }
  \<close>
  The promise of the first statement is dropped.
\<close>

definition Routine_stop :: "Routine \<Rightarrow> world \<Rightarrow> jsval settlement \<times> Routine \<times> world" where
  "Routine_stop this w =
     (case Routine_getRoutineUpdate this ROUTINE_COMMAND_TYPE_CANCEL w of
        (dropped, this1, w1) \<Rightarrow>
          (case Routine_getRoutineUpdate this1 ROUTINE_COMMAND_TYPE_REMOVE w1 of
             (p, this2, w2) \<Rightarrow> (async_return (Inr p), this2, w2)))"

text \<open>A caller driving a handle through a sequence of its public operations.\<close>

datatype routine_op = GetStatus | Resume | Stop

fun apply_op :: "routine_op \<Rightarrow> Routine \<Rightarrow> world \<Rightarrow> jsval settlement \<times> Routine \<times> world" where
  "apply_op GetStatus this w = Routine_getStatus this w"
| "apply_op Resume this w = Routine_resume this w"
| "apply_op Stop this w = Routine_stop this w"

fun apply_ops ::
  "routine_op list \<Rightarrow> Routine \<Rightarrow> world \<Rightarrow> jsval settlement list \<times> Routine \<times> world" where
  "apply_ops [] this w = ([], this, w)"
| "apply_ops (operation # rest) this w =
     (case apply_op operation this w of
        (p, this', w') \<Rightarrow>
          (case apply_ops rest this' w' of
             (ps, this'', w'') \<Rightarrow> (p # ps, this'', w'')))"

section \<open>The run-methods of the category managers\<close>

text \<open>
  \<^verbatim>\<open>promise.then((response) => new Routine(response.id))\<close>: a fulfilled promise gives a
  handle built from the \<^verbatim>\<open>id\<close> of the response (the read throws when the response is
  \<^verbatim>\<open>undefined\<close> or \<^verbatim>\<open>null\<close>, which rejects the new promise); a rejection passes through.
\<close>

definition then_new_Routine :: "jsval settlement \<Rightarrow> Routine settlement" where
  "then_new_Routine p =
     (case p of
        Fulfilled response \<Rightarrow>
          (case get_prop response ''id'' of
             Inl e \<Rightarrow> Rejected e
           | Inr i \<Rightarrow> Fulfilled (Routine_constructor i))
      | Rejected e \<Rightarrow> Rejected e
      | Pending \<Rightarrow> Pending)"

text \<open>
  \<^verbatim>\<open>return chrome.os.diagnostics.functionName(args).then((response) => new Routine(response.id))\<close>
  as the last statement of an \<^verbatim>\<open>async\<close> method.
\<close>

definition return_call_then_new_Routine ::
  "string \<Rightarrow> jsval list \<Rightarrow> world \<Rightarrow> Routine settlement \<times> world" where
  "return_call_then_new_Routine functionName args w =
     (case call_diagnostics functionName args w of
        (r, w') \<Rightarrow> (async_return (map_sum (\<lambda>e. e) then_new_Routine r), w'))"

text \<open>
  Every run-method of \<^verbatim>\<open>src/diagnostics_manager.js\<close> has the shape
  \<^verbatim>\<open>
  async runCapacityRoutine() {
    const functionName = 'runBatteryCapacityRoutine';
    if (!isSupported(functionName)) {
      return Promise.reject(new Error(getErrorMessage(functionName)));
    }
    return chrome.os.diagnostics.runBatteryCapacityRoutine().then(
        (response) => new Routine(response.id));
  }
  \<close>
  The methods differ in the name they probe, the entry point they call and whether they pass
  \<^verbatim>\<open>params\<close> on. A throw of the probe rejects the promise of the method.
\<close>

definition BatteryManager_runCapacityRoutine :: "world \<Rightarrow> Routine settlement \<times> world" where
  "BatteryManager_runCapacityRoutine w =
     (let functionName = ''runBatteryCapacityRoutine'' in
      case isSupported (chrome w) functionName of
        Inl e \<Rightarrow> (Rejected e, w)
      | Inr s \<Rightarrow>
          if \<not> truthy s then (Rejected (JError (getErrorMessage functionName)), w)
          else return_call_then_new_Routine ''runBatteryCapacityRoutine'' [] w)"

definition BatteryManager_runHealthRoutine :: "world \<Rightarrow> Routine settlement \<times> world" where
  "BatteryManager_runHealthRoutine w =
     (let functionName = ''runBatteryHealthRoutine'' in
      case isSupported (chrome w) functionName of
        Inl e \<Rightarrow> (Rejected e, w)
      | Inr s \<Rightarrow>
          if \<not> truthy s then (Rejected (JError (getErrorMessage functionName)), w)
          else return_call_then_new_Routine ''runBatteryHealthRoutine'' [] w)"

definition BatteryManager_runDischargeRoutine ::
  "jsval \<Rightarrow> world \<Rightarrow> Routine settlement \<times> world" where
  "BatteryManager_runDischargeRoutine params w =
     (let functionName = ''runBatteryDischargeRoutine'' in
      case isSupported (chrome w) functionName of
        Inl e \<Rightarrow> (Rejected e, w)
      | Inr s \<Rightarrow>
          if \<not> truthy s then (Rejected (JError (getErrorMessage functionName)), w)
          else return_call_then_new_Routine ''runBatteryDischargeRoutine'' [params] w)"

definition BatteryManager_runChargeRoutine ::
  "jsval \<Rightarrow> world \<Rightarrow> Routine settlement \<times> world" where
  "BatteryManager_runChargeRoutine params w =
     (let functionName = ''runBatteryChargeRoutine'' in
      case isSupported (chrome w) functionName of
        Inl e \<Rightarrow> (Rejected e, w)
      | Inr s \<Rightarrow>
          if \<not> truthy s then (Rejected (JError (getErrorMessage functionName)), w)
          else return_call_then_new_Routine ''runBatteryChargeRoutine'' [params] w)"

definition CpuManager_runCacheRoutine :: "jsval \<Rightarrow> world \<Rightarrow> Routine settlement \<times> world" where
  "CpuManager_runCacheRoutine params w =
     (let functionName = ''runCpuCacheRoutine'' in
      case isSupported (chrome w) functionName of
        Inl e \<Rightarrow> (Rejected e, w)
      | Inr s \<Rightarrow>
          if \<not> truthy s then (Rejected (JError (getErrorMessage functionName)), w)
          else return_call_then_new_Routine ''runCpuCacheRoutine'' [params] w)"

definition CpuManager_runStressRoutine :: "jsval \<Rightarrow> world \<Rightarrow> Routine settlement \<times> world" where
  "CpuManager_runStressRoutine params w =
     (let functionName = ''runCpuStressRoutine'' in
      case isSupported (chrome w) functionName of
        Inl e \<Rightarrow> (Rejected e, w)
      | Inr s \<Rightarrow>
          if \<not> truthy s then (Rejected (JError (getErrorMessage functionName)), w)
          else return_call_then_new_Routine ''runCpuStressRoutine'' [params] w)"

definition CpuManager_runFloatingPointAccuracyRoutine ::
  "jsval \<Rightarrow> world \<Rightarrow> Routine settlement \<times> world" where
  "CpuManager_runFloatingPointAccuracyRoutine params w =
     (let functionName = ''runCpuFloatingPointAccuracyRoutine'' in
      case isSupported (chrome w) functionName of
        Inl e \<Rightarrow> (Rejected e, w)
      | Inr s \<Rightarrow>
          if \<not> truthy s then (Rejected (JError (getErrorMessage functionName)), w)
          else return_call_then_new_Routine ''runCpuFloatingPointAccuracyRoutine'' [params] w)"

definition CpuManager_runPrimeSearchRoutine ::
  "jsval \<Rightarrow> world \<Rightarrow> Routine settlement \<times> world" where
  "CpuManager_runPrimeSearchRoutine params w =
     (let functionName = ''runCpuPrimeSearchRoutine'' in
      case isSupported (chrome w) functionName of
        Inl e \<Rightarrow> (Rejected e, w)
      | Inr s \<Rightarrow>
          if \<not> truthy s then (Rejected (JError (getErrorMessage functionName)), w)
          else return_call_then_new_Routine ''runCpuPrimeSearchRoutine'' [params] w)"

definition MemoryManager_runMemoryRoutine :: "world \<Rightarrow> Routine settlement \<times> world" where
  "MemoryManager_runMemoryRoutine w =
     (let functionName = ''runMemoryRoutine'' in
      case isSupported (chrome w) functionName of
        Inl e \<Rightarrow> (Rejected e, w)
      | Inr s \<Rightarrow>
          if \<not> truthy s then (Rejected (JError (getErrorMessage functionName)), w)
          else return_call_then_new_Routine ''runMemoryRoutine'' [] w)"

definition DiskManager_runReadRoutine :: "world \<Rightarrow> Routine settlement \<times> world" where
  "DiskManager_runReadRoutine w =
     (let functionName = ''runDiskReadRoutine'' in
      case isSupported (chrome w) functionName of
        Inl e \<Rightarrow> (Rejected e, w)
      | Inr s \<Rightarrow>
          if \<not> truthy s then (Rejected (JError (getErrorMessage functionName)), w)
          else return_call_then_new_Routine ''runDiskReadRoutine'' [] w)"

definition NvmeManager_runSmartctlCheckRoutine :: "world \<Rightarrow> Routine settlement \<times> world" where
  "NvmeManager_runSmartctlCheckRoutine w =
     (let functionName = ''runSmartctlCheckRoutine'' in
      case isSupported (chrome w) functionName of
        Inl e \<Rightarrow> (Rejected e, w)
      | Inr s \<Rightarrow>
          if \<not> truthy s then (Rejected (JError (getErrorMessage functionName)), w)
          else return_call_then_new_Routine ''runSmartctlCheckRoutine'' [] w)"

definition NvmeManager_runWearLevelRoutine ::
  "jsval \<Rightarrow> world \<Rightarrow> Routine settlement \<times> world" where
  "NvmeManager_runWearLevelRoutine params w =
     (let functionName = ''runNvmeWearLevelRoutine'' in
      case isSupported (chrome w) functionName of
        Inl e \<Rightarrow> (Rejected e, w)
      | Inr s \<Rightarrow>
          if \<not> truthy s then (Rejected (JError (getErrorMessage functionName)), w)
          else return_call_then_new_Routine ''runNvmeWearLevelRoutine'' [params] w)"

text \<open>
  \<^verbatim>\<open>
  async getAvailableRoutines() {
    const functionName = 'getAvailableRoutines';
    if (!isSupported(functionName)) {
      return Promise.reject(new Error(getErrorMessage(functionName)));
    }
    return chrome.os.diagnostics.getAvailableRoutines();
  }
  \<close>
\<close>

definition DPSLDiagnosticsManager_getAvailableRoutines ::
  "world \<Rightarrow> jsval settlement \<times> world" where
  "DPSLDiagnosticsManager_getAvailableRoutines w =
     (let functionName = ''getAvailableRoutines'' in
      case isSupported (chrome w) functionName of
        Inl e \<Rightarrow> (Rejected e, w)
      | Inr s \<Rightarrow>
          if \<not> truthy s then (Rejected (JError (getErrorMessage functionName)), w)
          else (case call_diagnostics ''getAvailableRoutines'' [] w of
                  (r, w') \<Rightarrow> (async_return r, w')))"

text \<open>
  The public surface \<^verbatim>\<open>dpsl.diagnostics.<category>.<method>\<close>: the manager holds one proxy per
  category (\<^verbatim>\<open>battery\<close>, \<^verbatim>\<open>cpu\<close>, \<^verbatim>\<open>memory\<close>, \<^verbatim>\<open>disk\<close>, \<^verbatim>\<open>nvme\<close>). A run-method is named by
  its category and its method; \<open>invoke\<close> calls it with the argument the caller passes.
\<close>

datatype run_method =
    battery_runCapacityRoutine
  | battery_runHealthRoutine
  | battery_runDischargeRoutine
  | battery_runChargeRoutine
  | cpu_runCacheRoutine
  | cpu_runStressRoutine
  | cpu_runFloatingPointAccuracyRoutine
  | cpu_runPrimeSearchRoutine
  | memory_runMemoryRoutine
  | disk_runReadRoutine
  | nvme_runSmartctlCheckRoutine
  | nvme_runWearLevelRoutine

fun invoke :: "run_method \<Rightarrow> jsval \<Rightarrow> world \<Rightarrow> Routine settlement \<times> world" where
  "invoke battery_runCapacityRoutine params w = BatteryManager_runCapacityRoutine w"
| "invoke battery_runHealthRoutine params w = BatteryManager_runHealthRoutine w"
| "invoke battery_runDischargeRoutine params w = BatteryManager_runDischargeRoutine params w"
| "invoke battery_runChargeRoutine params w = BatteryManager_runChargeRoutine params w"
| "invoke cpu_runCacheRoutine params w = CpuManager_runCacheRoutine params w"
| "invoke cpu_runStressRoutine params w = CpuManager_runStressRoutine params w"
| "invoke cpu_runFloatingPointAccuracyRoutine params w =
     CpuManager_runFloatingPointAccuracyRoutine params w"
| "invoke cpu_runPrimeSearchRoutine params w = CpuManager_runPrimeSearchRoutine params w"
| "invoke memory_runMemoryRoutine params w = MemoryManager_runMemoryRoutine w"
| "invoke disk_runReadRoutine params w = DiskManager_runReadRoutine w"
| "invoke nvme_runSmartctlCheckRoutine params w = NvmeManager_runSmartctlCheckRoutine w"
| "invoke nvme_runWearLevelRoutine params w = NvmeManager_runWearLevelRoutine params w"

text \<open>
  The entry point of \<^verbatim>\<open>chrome.os.diagnostics\<close> that belongs to a run-method, and the arguments
  the run-method hands to it.
\<close>

fun entry_point :: "run_method \<Rightarrow> string" where
  "entry_point battery_runCapacityRoutine = ''runBatteryCapacityRoutine''"
| "entry_point battery_runHealthRoutine = ''runBatteryHealthRoutine''"
| "entry_point battery_runDischargeRoutine = ''runBatteryDischargeRoutine''"
| "entry_point battery_runChargeRoutine = ''runBatteryChargeRoutine''"
| "entry_point cpu_runCacheRoutine = ''runCpuCacheRoutine''"
| "entry_point cpu_runStressRoutine = ''runCpuStressRoutine''"
| "entry_point cpu_runFloatingPointAccuracyRoutine = ''runCpuFloatingPointAccuracyRoutine''"
| "entry_point cpu_runPrimeSearchRoutine = ''runCpuPrimeSearchRoutine''"
| "entry_point memory_runMemoryRoutine = ''runMemoryRoutine''"
| "entry_point disk_runReadRoutine = ''runDiskReadRoutine''"
| "entry_point nvme_runSmartctlCheckRoutine = ''runSmartctlCheckRoutine''"
| "entry_point nvme_runWearLevelRoutine = ''runNvmeWearLevelRoutine''"

fun passed_args :: "run_method \<Rightarrow> jsval \<Rightarrow> jsval list" where
  "passed_args battery_runCapacityRoutine params = []"
| "passed_args battery_runHealthRoutine params = []"
| "passed_args memory_runMemoryRoutine params = []"
| "passed_args disk_runReadRoutine params = []"
| "passed_args nvme_runSmartctlCheckRoutine params = []"
| "passed_args m params = [params]"

section \<open>The variant without the capability check\<close>

text \<open>
  The second source file of the repository is an earlier form of the same module. Its class
  \<^verbatim>\<open>Routine\<close> is the same text; its run-methods and \<^verbatim>\<open>getAvailableRoutines\<close> call the
  entry point without probing for it first, as in
  \<^verbatim>\<open>
  async runCapacityRoutine() {
    return chrome.os.diagnostics.runBatteryCapacityRoutine().then(
        (response) => new Routine(response.id));
  }
  \<close>
  It has the four battery methods, the cache and stress methods of the CPU, the memory
  method and \<^verbatim>\<open>getAvailableRoutines\<close>.
\<close>

definition Routine_constructor_unchecked :: "jsval \<Rightarrow> Routine" where
  "Routine_constructor_unchecked i = \<lparr>id_attr = i\<rparr>"

definition Routine_getRoutineUpdate_unchecked ::
  "Routine \<Rightarrow> string \<Rightarrow> world \<Rightarrow> jsval settlement \<times> Routine \<times> world" where
  "Routine_getRoutineUpdate_unchecked this command w =
     (let request = JObj [(''id'', id_attr this), (''command'', JStr command)] in
      case call_diagnostics ''getRoutineUpdate'' [request] w of
        (r, w') \<Rightarrow> (async_return r, this, w'))"

definition Routine_getStatus_unchecked ::
  "Routine \<Rightarrow> world \<Rightarrow> jsval settlement \<times> Routine \<times> world" where
  "Routine_getStatus_unchecked this w =
     (case Routine_getRoutineUpdate_unchecked this ROUTINE_COMMAND_TYPE_GET_STATUS w of
        (p, this', w') \<Rightarrow> (async_return (Inr p), this', w'))"

definition Routine_resume_unchecked ::
  "Routine \<Rightarrow> world \<Rightarrow> jsval settlement \<times> Routine \<times> world" where
  "Routine_resume_unchecked this w =
     (case Routine_getRoutineUpdate_unchecked this ROUTINE_COMMAND_TYPE_RESUME w of
        (p, this', w') \<Rightarrow> (async_return (Inr p), this', w'))"

definition Routine_stop_unchecked ::
  "Routine \<Rightarrow> world \<Rightarrow> jsval settlement \<times> Routine \<times> world" where
  "Routine_stop_unchecked this w =
     (case Routine_getRoutineUpdate_unchecked this ROUTINE_COMMAND_TYPE_CANCEL w of
        (dropped, this1, w1) \<Rightarrow>
          (case Routine_getRoutineUpdate_unchecked this1 ROUTINE_COMMAND_TYPE_REMOVE w1 of
             (p, this2, w2) \<Rightarrow> (async_return (Inr p), this2, w2)))"

text \<open>
  \<^verbatim>\<open>promise.then((response) => new Routine(response.id))\<close> with the constructor of this file.
\<close>

definition then_new_Routine_unchecked :: "jsval settlement \<Rightarrow> Routine settlement" where
  "then_new_Routine_unchecked p =
     (case p of
        Fulfilled response \<Rightarrow>
          (case get_prop response ''id'' of
             Inl e \<Rightarrow> Rejected e
           | Inr i \<Rightarrow> Fulfilled (Routine_constructor_unchecked i))
      | Rejected e \<Rightarrow> Rejected e
      | Pending \<Rightarrow> Pending)"

definition return_call_then_new_Routine_unchecked ::
  "string \<Rightarrow> jsval list \<Rightarrow> world \<Rightarrow> Routine settlement \<times> world" where
  "return_call_then_new_Routine_unchecked functionName args w =
     (case call_diagnostics functionName args w of
        (r, w') \<Rightarrow> (async_return (map_sum (\<lambda>e. e) then_new_Routine_unchecked r), w'))"

definition BatteryManager_runCapacityRoutine_unchecked ::
  "world \<Rightarrow> Routine settlement \<times> world" where
  "BatteryManager_runCapacityRoutine_unchecked w =
     return_call_then_new_Routine_unchecked ''runBatteryCapacityRoutine'' [] w"

definition BatteryManager_runHealthRoutine_unchecked ::
  "world \<Rightarrow> Routine settlement \<times> world" where
  "BatteryManager_runHealthRoutine_unchecked w =
     return_call_then_new_Routine_unchecked ''runBatteryHealthRoutine'' [] w"

definition BatteryManager_runDischargeRoutine_unchecked ::
  "jsval \<Rightarrow> world \<Rightarrow> Routine settlement \<times> world" where
  "BatteryManager_runDischargeRoutine_unchecked params w =
     return_call_then_new_Routine_unchecked ''runBatteryDischargeRoutine'' [params] w"

definition BatteryManager_runChargeRoutine_unchecked ::
  "jsval \<Rightarrow> world \<Rightarrow> Routine settlement \<times> world" where
  "BatteryManager_runChargeRoutine_unchecked params w =
     return_call_then_new_Routine_unchecked ''runBatteryChargeRoutine'' [params] w"

definition CpuManager_runCacheRoutine_unchecked ::
  "jsval \<Rightarrow> world \<Rightarrow> Routine settlement \<times> world" where
  "CpuManager_runCacheRoutine_unchecked params w =
     return_call_then_new_Routine_unchecked ''runCpuCacheRoutine'' [params] w"

definition CpuManager_runStressRoutine_unchecked ::
  "jsval \<Rightarrow> world \<Rightarrow> Routine settlement \<times> world" where
  "CpuManager_runStressRoutine_unchecked params w =
     return_call_then_new_Routine_unchecked ''runCpuStressRoutine'' [params] w"

definition MemoryManager_runMemoryRoutine_unchecked ::
  "world \<Rightarrow> Routine settlement \<times> world" where
  "MemoryManager_runMemoryRoutine_unchecked w =
     return_call_then_new_Routine_unchecked ''runMemoryRoutine'' [] w"

text \<open>\<^verbatim>\<open>async getAvailableRoutines() { return chrome.os.diagnostics.getAvailableRoutines(); }\<close>\<close>

definition DPSLDiagnosticsManager_getAvailableRoutines_unchecked ::
  "world \<Rightarrow> jsval settlement \<times> world" where
  "DPSLDiagnosticsManager_getAvailableRoutines_unchecked w =
     (case call_diagnostics ''getAvailableRoutines'' [] w of
        (r, w') \<Rightarrow> (async_return r, w'))"

section \<open>Notions used in the statements\<close>

text \<open>
  What a caller sees of a host call whose result an \<^verbatim>\<open>async\<close> function returns as it is:
  the promise the backend returned, or a rejection with what the call threw.
\<close>

definition settled :: "outcome \<Rightarrow> jsval settlement" where
  "settled out = (case out of Throws e \<Rightarrow> Rejected e | Returns p \<Rightarrow> p)"

text \<open>The request \<^verbatim>\<open>{id: k, command: c}\<close> sent to \<^verbatim>\<open>getRoutineUpdate\<close>, as a call.\<close>

definition update_call :: "jsval \<Rightarrow> string \<Rightarrow> call" where
  "update_call k c = (''getRoutineUpdate'', [JObj [(''id'', k), (''command'', JStr c)]])"

text \<open>The world after one more call, or two, have been issued.\<close>

definition issued :: "call list \<Rightarrow> world \<Rightarrow> world" where
  "issued cs w = w\<lparr>calls := calls w @ cs\<rparr>"

text \<open>
  How the method of the file with the capability check and the method of the file without it
  compare at one entry point: the same result and the same world when the entry point is
  present and callable; otherwise the unchecked method is rejected with the TypeError of the
  engine and only the checked one with the descriptive error, neither reaching the backend.
\<close>

definition variants_agree ::
  "string \<Rightarrow> world \<Rightarrow> 'a settlement \<times> world \<Rightarrow> 'a settlement \<times> world \<Rightarrow> bool" where
  "variants_agree functionName w checked unchecked \<longleftrightarrow>
     (callable (chrome w) functionName \<longrightarrow> checked = unchecked) \<and>
     (\<not> callable (chrome w) functionName \<longrightarrow> unchecked = (Rejected JTypeError, w)) \<and>
     (chrome w \<noteq> JUndefined \<and> chrome w \<noteq> JNull \<and> \<not> callable (chrome w) functionName \<longrightarrow>
        checked = (Rejected (JError (getErrorMessage functionName)), w))"

section \<open>Sample hosts\<close>

text \<open>
  A host that offers every entry point the library uses, and whose backend fulfils
  every call with \<^verbatim>\<open>{id: 42}\<close>; and a host whose \<^verbatim>\<open>chrome\<close> has no \<^verbatim>\<open>os\<close> at all.
\<close>

definition full_chrome :: jsval where
  "full_chrome =
     JObj [(''os'', JObj [(''diagnostics'', JObj
       [(''getRoutineUpdate'', JFun),
        (''getAvailableRoutines'', JFun),
        (''runBatteryCapacityRoutine'', JFun),
        (''runBatteryHealthRoutine'', JFun),
        (''runBatteryDischargeRoutine'', JFun),
        (''runBatteryChargeRoutine'', JFun),
        (''runCpuCacheRoutine'', JFun),
        (''runCpuStressRoutine'', JFun),
        (''runCpuFloatingPointAccuracyRoutine'', JFun),
        (''runCpuPrimeSearchRoutine'', JFun),
        (''runMemoryRoutine'', JFun),
        (''runDiskReadRoutine'', JFun),
        (''runSmartctlCheckRoutine'', JFun),
        (''runNvmeWearLevelRoutine'', JFun)])])]"

definition answer_42 :: "call list \<Rightarrow> call \<Rightarrow> outcome" where
  "answer_42 earlier c = Returns (Fulfilled (JObj [(''id'', JNum 42)]))"

definition full_world :: world where
  "full_world = \<lparr>chrome = full_chrome, backend = answer_42, calls = []\<rparr>"

definition bare_world :: world where
  "bare_world = \<lparr>chrome = JObj [], backend = answer_42, calls = []\<rparr>"


text \<open>
  A backend that rejects every \<^verbatim>\<open>cancel\<close> command and fulfils every other call, and one that
  rejects every call.
\<close>

definition cancel_fails :: "call list \<Rightarrow> call \<Rightarrow> outcome" where
  "cancel_fails earlier c =
     (if c = update_call (JNum 7) ''cancel''
      then Returns (Rejected (JStr ''cancel failed''))
      else Returns (Fulfilled (JStr ''removed'')))"

definition cancel_fails_world :: world where
  "cancel_fails_world = \<lparr>chrome = full_chrome, backend = cancel_fails, calls = []\<rparr>"



section \<open>Properties of the probe\<close>

lemma typeof_function_iff: "typeof f = ''function'' \<longleftrightarrow> f = JFun"
  by (cases f) simp_all

lemma truthy_not_nullish: "truthy v \<Longrightarrow> v \<noteq> JUndefined \<and> v \<noteq> JNull"
  by (cases v) simp_all

lemma get_prop_returns:
  assumes "v \<noteq> JUndefined" and "v \<noteq> JNull"
  shows "\<exists>r. get_prop v k = Inr r"
  using assms by (cases v) simp_all

lemma isSupported_characterisation:
  assumes "g \<noteq> JUndefined" and "g \<noteq> JNull"
  shows "\<exists>v. isSupported g functionName = Inr v \<and>
             (truthy v \<longleftrightarrow> callable g functionName)"
proof -
  obtain os where os: "get_prop g ''os'' = Inr os"
    using get_prop_returns [OF assms] by blast
  show ?thesis
  proof (cases "truthy os")
    case False
    then have "get_prop os ''diagnostics'' = Inl JTypeError \<or> get_prop os ''diagnostics'' = Inr JUndefined"
      by (cases os) simp_all
    then have "\<not> callable g functionName"
      by (auto simp: callable_def chrome_os_diagnostics_member_def chrome_os_diagnostics_def
            chrome_os_def and_then_def os)
    with False show ?thesis
      by (simp add: isSupported_def js_and_def and_then_def chrome_os_def os)
  next
    case os_truthy: True
    then obtain d where d: "get_prop os ''diagnostics'' = Inr d"
      using get_prop_returns truthy_not_nullish by blast
    show ?thesis
    proof (cases "truthy d")
      case False
      then have "get_prop d functionName = Inl JTypeError \<or> get_prop d functionName = Inr JUndefined"
        by (cases d) simp_all
      then have "\<not> callable g functionName"
        by (auto simp: callable_def chrome_os_diagnostics_member_def chrome_os_diagnostics_def
              chrome_os_def and_then_def os d)
      with False os_truthy show ?thesis
        by (simp add: isSupported_def js_and_def and_then_def chrome_os_def
              chrome_os_diagnostics_def os d)
    next
      case d_truthy: True
      then obtain f where f: "get_prop d functionName = Inr f"
        using get_prop_returns truthy_not_nullish by blast
      have c: "callable g functionName \<longleftrightarrow> f = JFun"
        by (simp add: callable_def chrome_os_diagnostics_member_def chrome_os_diagnostics_def
              chrome_os_def and_then_def os d f)
      show ?thesis
      proof (cases "truthy f")
        case False
        then have "f \<noteq> JFun" by auto
        with False os_truthy d_truthy c show ?thesis
          by (simp add: isSupported_def js_and_def and_then_def chrome_os_def
                chrome_os_diagnostics_def chrome_os_diagnostics_member_def os d f)
      next
        case True
        with os_truthy d_truthy c show ?thesis
          by (simp add: isSupported_def js_and_def and_then_def chrome_os_def
                chrome_os_diagnostics_def chrome_os_diagnostics_member_def os d f
                typeof_function_iff)
      qed
    qed
  qed
qed


section \<open>Calls of the host\<close>

lemma get_prop_throws_TypeError: "get_prop v k = Inl e \<Longrightarrow> e = JTypeError"
  by (cases v) simp_all

lemma member_throws_TypeError:
  "chrome_os_diagnostics_member g fn = Inl e \<Longrightarrow> e = JTypeError"
  by (auto simp: chrome_os_diagnostics_member_def chrome_os_diagnostics_def chrome_os_def
        and_then_def split: sum.splits dest: get_prop_throws_TypeError)

lemma callable_not_nullish: "callable g fn \<Longrightarrow> g \<noteq> JUndefined \<and> g \<noteq> JNull"
  by (auto simp: callable_def chrome_os_diagnostics_member_def chrome_os_diagnostics_def
        chrome_os_def and_then_def)

lemma callable_supported:
  assumes "callable g fn"
  shows "\<exists>v. isSupported g fn = Inr v \<and> truthy v"
  using isSupported_characterisation [of g fn] callable_not_nullish [OF assms] assms by auto

lemma not_callable_unsupported:
  assumes "g \<noteq> JUndefined" and "g \<noteq> JNull" and "\<not> callable g fn"
  shows "\<exists>v. isSupported g fn = Inr v \<and> \<not> truthy v"
  using isSupported_characterisation [OF assms(1,2), of fn] assms(3) by auto

lemma call_diagnostics_callable:
  assumes "callable (chrome w) fn"
  shows "call_diagnostics fn args w =
           (case backend w (calls w) (fn, args) of Throws e \<Rightarrow> Inl e | Returns p \<Rightarrow> Inr p,
            issued [(fn, args)] w)"
  using assms
  by (auto simp: call_diagnostics_def callable_def issued_def split: sum.splits outcome.splits)

lemma call_diagnostics_not_callable:
  assumes "\<not> callable (chrome w) fn"
  shows "call_diagnostics fn args w = (Inl JTypeError, w)"
  using assms
  by (auto simp: call_diagnostics_def callable_def typeof_function_iff
        split: sum.splits dest: member_throws_TypeError)

lemma Routine_getRoutineUpdate_callable:
  assumes "callable (chrome w) ''getRoutineUpdate''"
  shows "Routine_getRoutineUpdate this c w =
           (settled (backend w (calls w) (update_call (id_attr this) c)), this,
            issued [update_call (id_attr this) c] w)"
  by (simp add: Routine_getRoutineUpdate_def call_diagnostics_callable [OF assms]
        update_call_def settled_def async_return_def split: outcome.splits)

lemma return_call_then_new_Routine_callable:
  assumes "callable (chrome w) fn"
  shows "return_call_then_new_Routine fn args w =
           (then_new_Routine (settled (backend w (calls w) (fn, args))), issued [(fn, args)] w)"
  by (simp add: return_call_then_new_Routine_def call_diagnostics_callable [OF assms]
        settled_def async_return_def then_new_Routine_def split: outcome.splits)

lemmas run_method_defs =
  BatteryManager_runCapacityRoutine_def BatteryManager_runHealthRoutine_def
  BatteryManager_runDischargeRoutine_def BatteryManager_runChargeRoutine_def
  CpuManager_runCacheRoutine_def CpuManager_runStressRoutine_def
  CpuManager_runFloatingPointAccuracyRoutine_def CpuManager_runPrimeSearchRoutine_def
  MemoryManager_runMemoryRoutine_def DiskManager_runReadRoutine_def
  NvmeManager_runSmartctlCheckRoutine_def NvmeManager_runWearLevelRoutine_def

lemma invoke_unsupported:
  assumes "isSupported (chrome w) (entry_point m) = Inr v" and "\<not> truthy v"
  shows "invoke m params w = (Rejected (JError (getErrorMessage (entry_point m))), w)"
  using assms by (cases m) (simp_all add: run_method_defs)

lemma invoke_supported:
  assumes "isSupported (chrome w) (entry_point m) = Inr v" and "truthy v"
  shows "invoke m params w =
           return_call_then_new_Routine (entry_point m) (passed_args m params) w"
  using assms by (cases m) (simp_all add: run_method_defs)





lemma callable_full_chrome:
  "callable full_chrome ''getRoutineUpdate''"
  "callable full_chrome ''getAvailableRoutines''"
  "callable full_chrome ''runBatteryCapacityRoutine''"
  by (simp_all add: full_chrome_def callable_def chrome_os_diagnostics_member_def
        chrome_os_diagnostics_def chrome_os_def and_then_def)


lemma Routine_getStatus_callable:
  assumes "callable (chrome w) ''getRoutineUpdate''"
  shows "Routine_getStatus this w =
           (settled (backend w (calls w) (update_call (id_attr this) ''status'')), this,
            issued [update_call (id_attr this) ''status''] w)"
  by (simp add: Routine_getStatus_def ROUTINE_COMMAND_TYPE_GET_STATUS_def
        Routine_getRoutineUpdate_callable [OF assms] async_return_def)

lemma Routine_resume_callable:
  assumes "callable (chrome w) ''getRoutineUpdate''"
  shows "Routine_resume this w =
           (settled (backend w (calls w) (update_call (id_attr this) ''resume'')), this,
            issued [update_call (id_attr this) ''resume''] w)"
  by (simp add: Routine_resume_def ROUTINE_COMMAND_TYPE_RESUME_def
        Routine_getRoutineUpdate_callable [OF assms] async_return_def)

lemma Routine_stop_callable:
  assumes "callable (chrome w) ''getRoutineUpdate''"
  shows "Routine_stop this w =
           (settled (backend w (calls w @ [update_call (id_attr this) ''cancel''])
                      (update_call (id_attr this) ''remove'')),
            this,
            issued [update_call (id_attr this) ''cancel'',
                    update_call (id_attr this) ''remove''] w)"
proof -
  let ?cancel = "update_call (id_attr this) ''cancel''"
  have first: "Routine_getRoutineUpdate this ROUTINE_COMMAND_TYPE_CANCEL w =
                 (settled (backend w (calls w) ?cancel), this, issued [?cancel] w)"
    unfolding ROUTINE_COMMAND_TYPE_CANCEL_def
    by (rule Routine_getRoutineUpdate_callable [OF assms])
  have still: "callable (chrome (issued [?cancel] w)) ''getRoutineUpdate''"
    using assms by (simp add: issued_def)
  have second: "Routine_getRoutineUpdate this ROUTINE_COMMAND_TYPE_REMOVE (issued [?cancel] w) =
                  (settled (backend w (calls w @ [?cancel]) (update_call (id_attr this) ''remove'')),
                   this,
                   issued [?cancel, update_call (id_attr this) ''remove''] w)"
    unfolding ROUTINE_COMMAND_TYPE_REMOVE_def
    using Routine_getRoutineUpdate_callable [OF still, of this "''remove''"]
    by (simp add: issued_def)
  show ?thesis
    by (simp add: Routine_stop_def first second async_return_def)
qed

lemma getAvailableRoutines_callable:
  assumes "callable (chrome w) ''getAvailableRoutines''"
  shows "DPSLDiagnosticsManager_getAvailableRoutines w =
           (settled (backend w (calls w) (''getAvailableRoutines'', [])),
            issued [(''getAvailableRoutines'', [])] w)"
proof -
  obtain v where "isSupported (chrome w) ''getAvailableRoutines'' = Inr v" and "truthy v"
    using callable_supported [OF assms] by blast
  then show ?thesis
    by (simp add: DPSLDiagnosticsManager_getAvailableRoutines_def
          call_diagnostics_callable [OF assms] settled_def async_return_def
          split: outcome.splits)
qed

lemma getAvailableRoutines_not_callable:
  assumes "chrome w \<noteq> JUndefined" and "chrome w \<noteq> JNull"
    and "\<not> callable (chrome w) ''getAvailableRoutines''"
  shows "DPSLDiagnosticsManager_getAvailableRoutines w =
           (Rejected (JError (getErrorMessage ''getAvailableRoutines'')), w)"
proof -
  obtain v where "isSupported (chrome w) ''getAvailableRoutines'' = Inr v" and "\<not> truthy v"
    using not_callable_unsupported [OF assms] by blast
  then show ?thesis
    by (simp add: DPSLDiagnosticsManager_getAvailableRoutines_def)
qed

lemma Routine_getRoutineUpdate_this:
  "fst (snd (Routine_getRoutineUpdate this c w)) = this"
  by (simp add: Routine_getRoutineUpdate_def split: prod.splits)

lemma Routine_getRoutineUpdate_cases:
  obtains p w' where "Routine_getRoutineUpdate this c w = (p, this, w')"
  using Routine_getRoutineUpdate_this [of this c w]
  by (cases "Routine_getRoutineUpdate this c w") auto

lemma apply_op_this: "fst (snd (apply_op operation this w)) = this"
proof (cases operation)
  case GetStatus
  obtain p w' where "Routine_getRoutineUpdate this ROUTINE_COMMAND_TYPE_GET_STATUS w = (p, this, w')"
    by (rule Routine_getRoutineUpdate_cases)
  with GetStatus show ?thesis
    by (simp add: Routine_getStatus_def)
next
  case Resume
  obtain p w' where "Routine_getRoutineUpdate this ROUTINE_COMMAND_TYPE_RESUME w = (p, this, w')"
    by (rule Routine_getRoutineUpdate_cases)
  with Resume show ?thesis
    by (simp add: Routine_resume_def)
next
  case Stop
  obtain d w1 where one: "Routine_getRoutineUpdate this ROUTINE_COMMAND_TYPE_CANCEL w = (d, this, w1)"
    by (rule Routine_getRoutineUpdate_cases)
  obtain p w2 where two: "Routine_getRoutineUpdate this ROUTINE_COMMAND_TYPE_REMOVE w1 = (p, this, w2)"
    by (rule Routine_getRoutineUpdate_cases)
  from Stop one two show ?thesis
    by (simp add: Routine_stop_def)
qed

lemma apply_ops_this: "fst (snd (apply_ops ops this w)) = this"
proof (induction ops arbitrary: w)
  case Nil
  show ?case by simp
next
  case (Cons operation rest)
  obtain p t1 w1 where one: "apply_op operation this w = (p, t1, w1)"
    by (cases "apply_op operation this w") auto
  then have same: "t1 = this"
    using apply_op_this [of operation this w] by simp
  obtain ps t2 w2 where two: "apply_ops rest this w1 = (ps, t2, w2)"
    by (cases "apply_ops rest this w1") auto
  then have "t2 = this"
    using Cons.IH [of w1] by simp
  with one same two show ?case by simp
qed


section \<open>The probe is safe\<close>

text \<open>
  C9, as stated for any state of the host, fails when the global \<^verbatim>\<open>chrome\<close> itself holds
  \<^verbatim>\<open>undefined\<close> or \<^verbatim>\<open>null\<close>: the first read, \<^verbatim>\<open>chrome.os\<close>, throws, and so does the probe. The
  guard of the probe starts one level below the global.
\<close>

theorem isSupported_throws_without_chrome:
  "isSupported JUndefined ''runMemoryRoutine'' = Inl JTypeError \<and>
   isSupported JNull ''runMemoryRoutine'' = Inl JTypeError"
  by (simp add: isSupported_def js_and_def and_then_def chrome_os_def)

text \<open>
  C9, amended: whenever the global \<^verbatim>\<open>chrome\<close> is neither \<^verbatim>\<open>undefined\<close> nor \<^verbatim>\<open>null\<close>, the
  capability probe \<^verbatim>\<open>isSupported(functionName)\<close> returns and does not throw, whatever that
  global holds: when \<^verbatim>\<open>chrome.os\<close> is absent, when \<^verbatim>\<open>chrome.os.diagnostics\<close> is absent, when
  the named property is absent, and when it is there but is not a function, the value
  returned is falsy. The value is truthy exactly when the entry point is present and callable.
\<close>

theorem isSupported_total:
  assumes "g \<noteq> JUndefined" and "g \<noteq> JNull"
  shows "\<exists>v. isSupported g functionName = Inr v \<and>
           (chrome_os g = Inr JUndefined \<longrightarrow> \<not> truthy v) \<and>
           (chrome_os_diagnostics g = Inr JUndefined \<longrightarrow> \<not> truthy v) \<and>
           (chrome_os_diagnostics_member g functionName = Inr JUndefined \<longrightarrow> \<not> truthy v) \<and>
           (\<forall>f. chrome_os_diagnostics_member g functionName = Inr f \<and> typeof f \<noteq> ''function''
                \<longrightarrow> \<not> truthy v) \<and>
           (truthy v \<longleftrightarrow> callable g functionName)"
proof -
  obtain v where v: "isSupported g functionName = Inr v"
    and iff: "truthy v \<longleftrightarrow> callable g functionName"
    using isSupported_characterisation [OF assms] by blast
  have "\<not> callable g functionName" if "chrome_os g = Inr JUndefined"
    using that by (simp add: callable_def chrome_os_diagnostics_member_def
          chrome_os_diagnostics_def and_then_def)
  moreover have "\<not> callable g functionName" if "chrome_os_diagnostics g = Inr JUndefined"
    using that by (simp add: callable_def chrome_os_diagnostics_member_def and_then_def)
  moreover have "\<not> callable g functionName"
    if "chrome_os_diagnostics_member g functionName = Inr JUndefined"
    using that by (simp add: callable_def)
  moreover have "\<not> callable g functionName"
    if "chrome_os_diagnostics_member g functionName = Inr f" and "typeof f \<noteq> ''function''" for f
    using that by (simp add: callable_def typeof_function_iff)
  ultimately show ?thesis
    using v iff by blast
qed

theorem isSupported_total_witness:
  "(JObj [] \<noteq> JUndefined \<and> JObj [] \<noteq> JNull \<and>
    chrome_os (JObj []) = Inr JUndefined \<and>
    isSupported (JObj []) ''runMemoryRoutine'' = Inr JUndefined) \<and>
   (chrome_os_diagnostics (JObj [(''os'', JObj [])]) = Inr JUndefined \<and>
    isSupported (JObj [(''os'', JObj [])]) ''runMemoryRoutine'' = Inr JUndefined) \<and>
   (chrome_os_diagnostics_member (JObj [(''os'', JObj [(''diagnostics'', JObj [])])])
      ''runMemoryRoutine'' = Inr JUndefined \<and>
    isSupported (JObj [(''os'', JObj [(''diagnostics'', JObj [])])]) ''runMemoryRoutine'' =
      Inr JUndefined) \<and>
   (chrome_os_diagnostics_member
      (JObj [(''os'', JObj [(''diagnostics'', JObj [(''runMemoryRoutine'', JStr ''no'')])])])
      ''runMemoryRoutine'' = Inr (JStr ''no'') \<and>
    typeof (JStr ''no'') \<noteq> ''function'' \<and>
    isSupported
      (JObj [(''os'', JObj [(''diagnostics'', JObj [(''runMemoryRoutine'', JStr ''no'')])])])
      ''runMemoryRoutine'' = Inr (JBool False)) \<and>
   (callable full_chrome ''runMemoryRoutine'' \<and>
    isSupported full_chrome ''runMemoryRoutine'' = Inr (JBool True))"
  using isSupported_total [of "JObj []" "''runMemoryRoutine''"]
    isSupported_total [of "JObj [(''os'', JObj [])]" "''runMemoryRoutine''"]
    isSupported_total [of "JObj [(''os'', JObj [(''diagnostics'', JObj [])])]" "''runMemoryRoutine''"]
    isSupported_total [of
      "JObj [(''os'', JObj [(''diagnostics'', JObj [(''runMemoryRoutine'', JStr ''no'')])])]"
      "''runMemoryRoutine''"]
    isSupported_total [of full_chrome "''runMemoryRoutine''"]
  by (simp add: full_chrome_def isSupported_def js_and_def and_then_def callable_def
        chrome_os_def chrome_os_diagnostics_def chrome_os_diagnostics_member_def)

section \<open>The preflight check of the run-methods\<close>





section \<open>The command protocol of the handle\<close>

text \<open>
  C1: on a host whose \<^verbatim>\<open>getRoutineUpdate\<close> is callable, \<^verbatim>\<open>stop()\<close> on a handle with identifier
  \<open>k\<close> issues exactly two calls of \<^verbatim>\<open>getRoutineUpdate\<close>, first with \<^verbatim>\<open>{id: k, command: "cancel"}\<close>
  and then with \<^verbatim>\<open>{id: k, command: "remove"}\<close>. The promise it returns is the one the backend
  gave to the remove call: what became of the cancel call does not occur in the result.
\<close>

theorem stop_cancels_then_removes:
  assumes "callable (chrome w) ''getRoutineUpdate''"
  shows "Routine_stop this w =
           (settled (backend w (calls w @ [update_call (id_attr this) ''cancel''])
                      (update_call (id_attr this) ''remove'')),
            this,
            issued [update_call (id_attr this) ''cancel'',
                    update_call (id_attr this) ''remove''] w)"
  using assms by (rule Routine_stop_callable)

theorem stop_cancels_then_removes_witness:
  "callable (chrome cancel_fails_world) ''getRoutineUpdate'' \<and>
   backend cancel_fails_world (calls cancel_fails_world) (update_call (JNum 7) ''cancel'') =
     Returns (Rejected (JStr ''cancel failed'')) \<and>
   fst (Routine_stop \<lparr>id_attr = JNum 7\<rparr> cancel_fails_world) = Fulfilled (JStr ''removed'') \<and>
   calls (snd (snd (Routine_stop \<lparr>id_attr = JNum 7\<rparr> cancel_fails_world))) =
     [(''getRoutineUpdate'', [JObj [(''id'', JNum 7), (''command'', JStr ''cancel'')]]),
      (''getRoutineUpdate'', [JObj [(''id'', JNum 7), (''command'', JStr ''remove'')]])]"
  using stop_cancels_then_removes [of cancel_fails_world "\<lparr>id_attr = JNum 7\<rparr>"]
  by (simp add: cancel_fails_world_def callable_full_chrome cancel_fails_def update_call_def
        settled_def issued_def)

text \<open>
  C4: on a host whose \<^verbatim>\<open>getRoutineUpdate\<close> is callable, \<^verbatim>\<open>getStatus()\<close> on a handle with
  identifier \<open>k\<close> issues exactly one call, with \<^verbatim>\<open>{id: k, command: "status"}\<close>, and returns what
  the backend answered, as it is; \<^verbatim>\<open>resume()\<close> does the same with
  \<^verbatim>\<open>{id: k, command: "resume"}\<close>.
\<close>

theorem getStatus_resume_forward:
  assumes "callable (chrome w) ''getRoutineUpdate''"
  shows "Routine_getStatus this w =
           (settled (backend w (calls w) (update_call (id_attr this) ''status'')), this,
            issued [update_call (id_attr this) ''status''] w) \<and>
         Routine_resume this w =
           (settled (backend w (calls w) (update_call (id_attr this) ''resume'')), this,
            issued [update_call (id_attr this) ''resume''] w)"
  using Routine_getStatus_callable [OF assms] Routine_resume_callable [OF assms] by simp

theorem getStatus_resume_forward_witness:
  "callable (chrome full_world) ''getRoutineUpdate'' \<and>
   Routine_getStatus \<lparr>id_attr = JNum 7\<rparr> full_world =
     (Fulfilled (JObj [(''id'', JNum 42)]), \<lparr>id_attr = JNum 7\<rparr>,
      full_world\<lparr>calls := [(''getRoutineUpdate'',
         [JObj [(''id'', JNum 7), (''command'', JStr ''status'')]])]\<rparr>) \<and>
   Routine_resume \<lparr>id_attr = JNum 7\<rparr> full_world =
     (Fulfilled (JObj [(''id'', JNum 42)]), \<lparr>id_attr = JNum 7\<rparr>,
      full_world\<lparr>calls := [(''getRoutineUpdate'',
         [JObj [(''id'', JNum 7), (''command'', JStr ''resume'')]])]\<rparr>)"
  using getStatus_resume_forward [of full_world "\<lparr>id_attr = JNum 7\<rparr>"]
  by (simp add: full_world_def callable_full_chrome answer_42_def update_call_def
        settled_def issued_def)


text \<open>
  C8: the constructor stores the identifier it is given, and no sequence of \<^verbatim>\<open>getStatus()\<close>,
  \<^verbatim>\<open>resume()\<close> and \<^verbatim>\<open>stop()\<close> calls changes it, on any host.
\<close>

theorem handle_id_never_changes:
  "id_attr (Routine_constructor k) = k \<and>
   id_attr (fst (snd (apply_ops ops (Routine_constructor k) w))) = k \<and>
   fst (snd (apply_ops ops this w)) = this"
  by (simp add: apply_ops_this Routine_constructor_def)


theorem handle_id_never_changes_witness:
  "id_attr (fst (snd (apply_ops [GetStatus, Stop, Resume] (Routine_constructor (JNum 7))
      cancel_fails_world))) = JNum 7"
  using handle_id_never_changes [of "JNum 7" "[GetStatus, Stop, Resume]" cancel_fails_world]
  by blast

section \<open>Forwarding to the backend\<close>

text \<open>
  C3: for every run-method, when its entry point is callable and the backend fulfils the call
  with a response whose \<^verbatim>\<open>id\<close> is \<open>k\<close>, the promise of the run-method is fulfilled with a handle
  whose \<^verbatim>\<open>id\<close> is \<open>k\<close>; that one call is all that reached the backend.
\<close>

theorem run_method_handle_id:
  assumes "callable (chrome w) (entry_point m)"
    and "backend w (calls w) (entry_point m, passed_args m params) = Returns (Fulfilled response)"
    and "get_prop response ''id'' = Inr k"
  shows "invoke m params w =
           (Fulfilled \<lparr>id_attr = k\<rparr>, issued [(entry_point m, passed_args m params)] w)"
proof -
  obtain v where "isSupported (chrome w) (entry_point m) = Inr v" and "truthy v"
    using callable_supported [OF assms(1)] by blast
  then have "invoke m params w =
               return_call_then_new_Routine (entry_point m) (passed_args m params) w"
    by (rule invoke_supported)
  then show ?thesis
    by (simp add: return_call_then_new_Routine_callable [OF assms(1)] assms(2,3) settled_def
          then_new_Routine_def Routine_constructor_def)
qed

theorem run_method_handle_id_witness:
  "callable (chrome full_world) (entry_point battery_runCapacityRoutine) \<and>
   backend full_world (calls full_world)
     (entry_point battery_runCapacityRoutine, passed_args battery_runCapacityRoutine JUndefined) =
     Returns (Fulfilled (JObj [(''id'', JNum 42)])) \<and>
   get_prop (JObj [(''id'', JNum 42)]) ''id'' = Inr (JNum 42) \<and>
   fst (BatteryManager_runCapacityRoutine full_world) = Fulfilled \<lparr>id_attr = JNum 42\<rparr> \<and>
   id_attr \<lparr>id_attr = JNum 42\<rparr> = JNum 42"
  using run_method_handle_id [of full_world battery_runCapacityRoutine JUndefined
      "JObj [(''id'', JNum 42)]" "JNum 42"]
  by (simp add: full_world_def callable_full_chrome answer_42_def)






section \<open>The two source files compared\<close>


lemma Routine_constructor_unchecked_eq: "Routine_constructor_unchecked = Routine_constructor"
  by (rule ext) (simp add: Routine_constructor_unchecked_def Routine_constructor_def)

lemma then_new_Routine_unchecked_eq: "then_new_Routine_unchecked p = then_new_Routine p"
  by (simp only: then_new_Routine_unchecked_def then_new_Routine_def
        Routine_constructor_unchecked_eq)

lemma return_call_then_new_Routine_unchecked_eq:
  "return_call_then_new_Routine_unchecked fn args w = return_call_then_new_Routine fn args w"
proof -
  have "then_new_Routine_unchecked = then_new_Routine"
    by (rule ext) (rule then_new_Routine_unchecked_eq)
  then show ?thesis
    by (simp add: return_call_then_new_Routine_unchecked_def return_call_then_new_Routine_def)
qed

lemma return_call_then_new_Routine_not_callable:
  assumes "\<not> callable (chrome w) fn"
  shows "return_call_then_new_Routine fn args w = (Rejected JTypeError, w)"
  by (simp add: return_call_then_new_Routine_def call_diagnostics_not_callable [OF assms]
        async_return_def)

lemma Routine_getRoutineUpdate_unchecked_eq:
  "Routine_getRoutineUpdate_unchecked this c w = Routine_getRoutineUpdate this c w"
  by (simp add: Routine_getRoutineUpdate_unchecked_def Routine_getRoutineUpdate_def)

lemma run_variants_agree:
  assumes "checked = invoke m params w"
    and "unchecked = return_call_then_new_Routine_unchecked (entry_point m) (passed_args m params) w"
  shows "variants_agree (entry_point m) w checked unchecked"
proof -
  have present: "checked = unchecked" if c: "callable (chrome w) (entry_point m)"
  proof -
    obtain v where "isSupported (chrome w) (entry_point m) = Inr v" and "truthy v"
      using callable_supported [OF c] by blast
    then have "invoke m params w =
                 return_call_then_new_Routine (entry_point m) (passed_args m params) w"
      by (rule invoke_supported)
    then show ?thesis
      by (simp add: assms return_call_then_new_Routine_unchecked_eq)
  qed
  have absent_unchecked: "unchecked = (Rejected JTypeError, w)"
    if "\<not> callable (chrome w) (entry_point m)"
    using that
    by (simp add: assms(2) return_call_then_new_Routine_unchecked_eq
          return_call_then_new_Routine_not_callable)
  have absent_checked: "checked = (Rejected (JError (getErrorMessage (entry_point m))), w)"
    if h: "chrome w \<noteq> JUndefined" "chrome w \<noteq> JNull" "\<not> callable (chrome w) (entry_point m)"
  proof -
    obtain v where "isSupported (chrome w) (entry_point m) = Inr v" and "\<not> truthy v"
      using not_callable_unsupported [OF h] by blast
    then show ?thesis
      unfolding assms(1) by (rule invoke_unsupported)
  qed
  show ?thesis
    unfolding variants_agree_def using present absent_unchecked absent_checked by blast
qed

lemma getAvailableRoutines_variants_agree:
  "variants_agree ''getAvailableRoutines'' w
     (DPSLDiagnosticsManager_getAvailableRoutines w)
     (DPSLDiagnosticsManager_getAvailableRoutines_unchecked w)"
proof -
  have "DPSLDiagnosticsManager_getAvailableRoutines_unchecked w =
          (settled (backend w (calls w) (''getAvailableRoutines'', [])),
           issued [(''getAvailableRoutines'', [])] w)"
    if c: "callable (chrome w) ''getAvailableRoutines''"
    by (simp add: DPSLDiagnosticsManager_getAvailableRoutines_unchecked_def
          call_diagnostics_callable [OF c] settled_def async_return_def split: outcome.splits)
  moreover have "DPSLDiagnosticsManager_getAvailableRoutines_unchecked w = (Rejected JTypeError, w)"
    if c: "\<not> callable (chrome w) ''getAvailableRoutines''"
    by (simp add: DPSLDiagnosticsManager_getAvailableRoutines_unchecked_def
          call_diagnostics_not_callable [OF c] async_return_def)
  ultimately show ?thesis
    unfolding variants_agree_def
    using getAvailableRoutines_callable [of w] getAvailableRoutines_not_callable [of w]
    by auto
qed

text \<open>
  C10: for the operations both source files define (the four battery run-methods, the cache
  and stress run-methods of the CPU, the memory run-method, \<^verbatim>\<open>getAvailableRoutines\<close> and the
  operations of the handle), the file with the capability check and the file without it give
  the same promise and issue the same calls in the same order whenever the entry point is
  present and callable. The handle is the same in both on every host. When the entry point is
  absent neither file reaches the backend: the unchecked method is rejected with the TypeError
  of the engine, the checked one with the descriptive error.
\<close>

theorem checked_and_unchecked_variants:
  "variants_agree ''runBatteryCapacityRoutine'' w
     (BatteryManager_runCapacityRoutine w) (BatteryManager_runCapacityRoutine_unchecked w) \<and>
   variants_agree ''runBatteryHealthRoutine'' w
     (BatteryManager_runHealthRoutine w) (BatteryManager_runHealthRoutine_unchecked w) \<and>
   variants_agree ''runBatteryDischargeRoutine'' w
     (BatteryManager_runDischargeRoutine params w)
     (BatteryManager_runDischargeRoutine_unchecked params w) \<and>
   variants_agree ''runBatteryChargeRoutine'' w
     (BatteryManager_runChargeRoutine params w)
     (BatteryManager_runChargeRoutine_unchecked params w) \<and>
   variants_agree ''runCpuCacheRoutine'' w
     (CpuManager_runCacheRoutine params w) (CpuManager_runCacheRoutine_unchecked params w) \<and>
   variants_agree ''runCpuStressRoutine'' w
     (CpuManager_runStressRoutine params w) (CpuManager_runStressRoutine_unchecked params w) \<and>
   variants_agree ''runMemoryRoutine'' w
     (MemoryManager_runMemoryRoutine w) (MemoryManager_runMemoryRoutine_unchecked w) \<and>
   variants_agree ''getAvailableRoutines'' w
     (DPSLDiagnosticsManager_getAvailableRoutines w)
     (DPSLDiagnosticsManager_getAvailableRoutines_unchecked w) \<and>
   Routine_constructor k = Routine_constructor_unchecked k \<and>
   Routine_getStatus this w = Routine_getStatus_unchecked this w \<and>
   Routine_resume this w = Routine_resume_unchecked this w \<and>
   Routine_stop this w = Routine_stop_unchecked this w"
proof -
  have capacity: "variants_agree ''runBatteryCapacityRoutine'' w
     (BatteryManager_runCapacityRoutine w) (BatteryManager_runCapacityRoutine_unchecked w)"
    using run_variants_agree [of _ battery_runCapacityRoutine params w]
    by (simp add: BatteryManager_runCapacityRoutine_unchecked_def)
  have health: "variants_agree ''runBatteryHealthRoutine'' w
     (BatteryManager_runHealthRoutine w) (BatteryManager_runHealthRoutine_unchecked w)"
    using run_variants_agree [of _ battery_runHealthRoutine params w]
    by (simp add: BatteryManager_runHealthRoutine_unchecked_def)
  have discharge: "variants_agree ''runBatteryDischargeRoutine'' w
     (BatteryManager_runDischargeRoutine params w)
     (BatteryManager_runDischargeRoutine_unchecked params w)"
    using run_variants_agree [of _ battery_runDischargeRoutine params w]
    by (simp add: BatteryManager_runDischargeRoutine_unchecked_def)
  have charge: "variants_agree ''runBatteryChargeRoutine'' w
     (BatteryManager_runChargeRoutine params w)
     (BatteryManager_runChargeRoutine_unchecked params w)"
    using run_variants_agree [of _ battery_runChargeRoutine params w]
    by (simp add: BatteryManager_runChargeRoutine_unchecked_def)
  have cache: "variants_agree ''runCpuCacheRoutine'' w
     (CpuManager_runCacheRoutine params w) (CpuManager_runCacheRoutine_unchecked params w)"
    using run_variants_agree [of _ cpu_runCacheRoutine params w]
    by (simp add: CpuManager_runCacheRoutine_unchecked_def)
  have stress: "variants_agree ''runCpuStressRoutine'' w
     (CpuManager_runStressRoutine params w) (CpuManager_runStressRoutine_unchecked params w)"
    using run_variants_agree [of _ cpu_runStressRoutine params w]
    by (simp add: CpuManager_runStressRoutine_unchecked_def)
  have memory: "variants_agree ''runMemoryRoutine'' w
     (MemoryManager_runMemoryRoutine w) (MemoryManager_runMemoryRoutine_unchecked w)"
    using run_variants_agree [of _ memory_runMemoryRoutine params w]
    by (simp add: MemoryManager_runMemoryRoutine_unchecked_def)
  have handle: "Routine_constructor k = Routine_constructor_unchecked k \<and>
      Routine_getStatus this w = Routine_getStatus_unchecked this w \<and>
      Routine_resume this w = Routine_resume_unchecked this w \<and>
      Routine_stop this w = Routine_stop_unchecked this w"
    by (simp add: Routine_constructor_def Routine_constructor_unchecked_def
          Routine_getStatus_def Routine_getStatus_unchecked_def
          Routine_resume_def Routine_resume_unchecked_def
          Routine_stop_def Routine_stop_unchecked_def Routine_getRoutineUpdate_unchecked_eq)
  show ?thesis
    using capacity health discharge charge cache stress memory
      getAvailableRoutines_variants_agree [of w] handle
    by simp
qed


theorem checked_and_unchecked_variants_witness:
  "(callable (chrome full_world) ''runBatteryCapacityRoutine'' \<and>
   callable (chrome full_world) ''runBatteryHealthRoutine'' \<and>
   callable (chrome full_world) ''runBatteryDischargeRoutine'' \<and>
   callable (chrome full_world) ''runBatteryChargeRoutine'' \<and>
   callable (chrome full_world) ''runCpuCacheRoutine'' \<and>
   callable (chrome full_world) ''runCpuStressRoutine'' \<and>
   callable (chrome full_world) ''runMemoryRoutine'' \<and>
   callable (chrome full_world) ''getAvailableRoutines'') \<and>
   (BatteryManager_runCapacityRoutine full_world = BatteryManager_runCapacityRoutine_unchecked full_world \<and>
   BatteryManager_runHealthRoutine full_world = BatteryManager_runHealthRoutine_unchecked full_world \<and>
   BatteryManager_runDischargeRoutine (JNum 5) full_world = BatteryManager_runDischargeRoutine_unchecked (JNum 5) full_world \<and>
   BatteryManager_runChargeRoutine (JNum 5) full_world = BatteryManager_runChargeRoutine_unchecked (JNum 5) full_world \<and>
   CpuManager_runCacheRoutine (JNum 5) full_world = CpuManager_runCacheRoutine_unchecked (JNum 5) full_world \<and>
   CpuManager_runStressRoutine (JNum 5) full_world = CpuManager_runStressRoutine_unchecked (JNum 5) full_world \<and>
   MemoryManager_runMemoryRoutine full_world = MemoryManager_runMemoryRoutine_unchecked full_world \<and>
   DPSLDiagnosticsManager_getAvailableRoutines full_world = DPSLDiagnosticsManager_getAvailableRoutines_unchecked full_world) \<and>
   (chrome bare_world \<noteq> JUndefined \<and> chrome bare_world \<noteq> JNull) \<and>
   (\<not> callable (chrome bare_world) ''runBatteryCapacityRoutine'' \<and>
   \<not> callable (chrome bare_world) ''runBatteryHealthRoutine'' \<and>
   \<not> callable (chrome bare_world) ''runBatteryDischargeRoutine'' \<and>
   \<not> callable (chrome bare_world) ''runBatteryChargeRoutine'' \<and>
   \<not> callable (chrome bare_world) ''runCpuCacheRoutine'' \<and>
   \<not> callable (chrome bare_world) ''runCpuStressRoutine'' \<and>
   \<not> callable (chrome bare_world) ''runMemoryRoutine'' \<and>
   \<not> callable (chrome bare_world) ''getAvailableRoutines'') \<and>
   (BatteryManager_runCapacityRoutine_unchecked bare_world = (Rejected JTypeError, bare_world) \<and>
   BatteryManager_runHealthRoutine_unchecked bare_world = (Rejected JTypeError, bare_world) \<and>
   BatteryManager_runDischargeRoutine_unchecked (JNum 5) bare_world = (Rejected JTypeError, bare_world) \<and>
   BatteryManager_runChargeRoutine_unchecked (JNum 5) bare_world = (Rejected JTypeError, bare_world) \<and>
   CpuManager_runCacheRoutine_unchecked (JNum 5) bare_world = (Rejected JTypeError, bare_world) \<and>
   CpuManager_runStressRoutine_unchecked (JNum 5) bare_world = (Rejected JTypeError, bare_world) \<and>
   MemoryManager_runMemoryRoutine_unchecked bare_world = (Rejected JTypeError, bare_world) \<and>
   DPSLDiagnosticsManager_getAvailableRoutines_unchecked bare_world = (Rejected JTypeError, bare_world)) \<and>
   (BatteryManager_runCapacityRoutine bare_world = (Rejected (JError (getErrorMessage ''runBatteryCapacityRoutine'')), bare_world) \<and>
   BatteryManager_runHealthRoutine bare_world = (Rejected (JError (getErrorMessage ''runBatteryHealthRoutine'')), bare_world) \<and>
   BatteryManager_runDischargeRoutine (JNum 5) bare_world = (Rejected (JError (getErrorMessage ''runBatteryDischargeRoutine'')), bare_world) \<and>
   BatteryManager_runChargeRoutine (JNum 5) bare_world = (Rejected (JError (getErrorMessage ''runBatteryChargeRoutine'')), bare_world) \<and>
   CpuManager_runCacheRoutine (JNum 5) bare_world = (Rejected (JError (getErrorMessage ''runCpuCacheRoutine'')), bare_world) \<and>
   CpuManager_runStressRoutine (JNum 5) bare_world = (Rejected (JError (getErrorMessage ''runCpuStressRoutine'')), bare_world) \<and>
   MemoryManager_runMemoryRoutine bare_world = (Rejected (JError (getErrorMessage ''runMemoryRoutine'')), bare_world) \<and>
   DPSLDiagnosticsManager_getAvailableRoutines bare_world = (Rejected (JError (getErrorMessage ''getAvailableRoutines'')), bare_world)) \<and>
   (callable (chrome full_world) ''runBatteryCapacityRoutine'' \<and>
   callable (chrome full_world) ''runBatteryHealthRoutine'' \<and>
   callable (chrome full_world) ''runBatteryDischargeRoutine'' \<and>
   callable (chrome full_world) ''runBatteryChargeRoutine'' \<and>
   callable (chrome full_world) ''runCpuCacheRoutine'' \<and>
   callable (chrome full_world) ''runCpuStressRoutine'' \<and>
   callable (chrome full_world) ''runMemoryRoutine'' \<and>
   callable (chrome full_world) ''getAvailableRoutines'') \<and>
   fst (BatteryManager_runCapacityRoutine_unchecked full_world) = Fulfilled \<lparr>id_attr = JNum 42\<rparr>"
proof -
  have present: "callable (chrome full_world) ''runBatteryCapacityRoutine'' \<and>
   callable (chrome full_world) ''runBatteryHealthRoutine'' \<and>
   callable (chrome full_world) ''runBatteryDischargeRoutine'' \<and>
   callable (chrome full_world) ''runBatteryChargeRoutine'' \<and>
   callable (chrome full_world) ''runCpuCacheRoutine'' \<and>
   callable (chrome full_world) ''runCpuStressRoutine'' \<and>
   callable (chrome full_world) ''runMemoryRoutine'' \<and>
   callable (chrome full_world) ''getAvailableRoutines''"
    by (simp add: full_world_def full_chrome_def callable_def chrome_os_diagnostics_member_def
          chrome_os_diagnostics_def chrome_os_def and_then_def)
  have object: "chrome bare_world \<noteq> JUndefined \<and> chrome bare_world \<noteq> JNull"
    by (simp add: bare_world_def)
  have absent: "\<not> callable (chrome bare_world) ''runBatteryCapacityRoutine'' \<and>
   \<not> callable (chrome bare_world) ''runBatteryHealthRoutine'' \<and>
   \<not> callable (chrome bare_world) ''runBatteryDischargeRoutine'' \<and>
   \<not> callable (chrome bare_world) ''runBatteryChargeRoutine'' \<and>
   \<not> callable (chrome bare_world) ''runCpuCacheRoutine'' \<and>
   \<not> callable (chrome bare_world) ''runCpuStressRoutine'' \<and>
   \<not> callable (chrome bare_world) ''runMemoryRoutine'' \<and>
   \<not> callable (chrome bare_world) ''getAvailableRoutines''"
    by (simp add: bare_world_def callable_def chrome_os_diagnostics_member_def
          chrome_os_diagnostics_def chrome_os_def and_then_def)
  have sample: "fst (BatteryManager_runCapacityRoutine_unchecked full_world) =
      Fulfilled \<lparr>id_attr = JNum 42\<rparr>"
    using present
    by (simp add: BatteryManager_runCapacityRoutine_unchecked_def
          return_call_then_new_Routine_unchecked_def call_diagnostics_callable
          async_return_def then_new_Routine_unchecked_def Routine_constructor_unchecked_def)
       (simp add: full_world_def answer_42_def then_new_Routine_unchecked_def
          Routine_constructor_unchecked_def)
  have agree: "BatteryManager_runCapacityRoutine full_world = BatteryManager_runCapacityRoutine_unchecked full_world \<and>
   BatteryManager_runHealthRoutine full_world = BatteryManager_runHealthRoutine_unchecked full_world \<and>
   BatteryManager_runDischargeRoutine (JNum 5) full_world = BatteryManager_runDischargeRoutine_unchecked (JNum 5) full_world \<and>
   BatteryManager_runChargeRoutine (JNum 5) full_world = BatteryManager_runChargeRoutine_unchecked (JNum 5) full_world \<and>
   CpuManager_runCacheRoutine (JNum 5) full_world = CpuManager_runCacheRoutine_unchecked (JNum 5) full_world \<and>
   CpuManager_runStressRoutine (JNum 5) full_world = CpuManager_runStressRoutine_unchecked (JNum 5) full_world \<and>
   MemoryManager_runMemoryRoutine full_world = MemoryManager_runMemoryRoutine_unchecked full_world \<and>
   DPSLDiagnosticsManager_getAvailableRoutines full_world = DPSLDiagnosticsManager_getAvailableRoutines_unchecked full_world"
    using checked_and_unchecked_variants [of full_world "JNum 5" "JNum 7" "\<lparr>id_attr = JNum 7\<rparr>"]
      present
    by (simp add: variants_agree_def)
  have differ: "(BatteryManager_runCapacityRoutine_unchecked bare_world = (Rejected JTypeError, bare_world) \<and>
   BatteryManager_runHealthRoutine_unchecked bare_world = (Rejected JTypeError, bare_world) \<and>
   BatteryManager_runDischargeRoutine_unchecked (JNum 5) bare_world = (Rejected JTypeError, bare_world) \<and>
   BatteryManager_runChargeRoutine_unchecked (JNum 5) bare_world = (Rejected JTypeError, bare_world) \<and>
   CpuManager_runCacheRoutine_unchecked (JNum 5) bare_world = (Rejected JTypeError, bare_world) \<and>
   CpuManager_runStressRoutine_unchecked (JNum 5) bare_world = (Rejected JTypeError, bare_world) \<and>
   MemoryManager_runMemoryRoutine_unchecked bare_world = (Rejected JTypeError, bare_world) \<and>
   DPSLDiagnosticsManager_getAvailableRoutines_unchecked bare_world = (Rejected JTypeError, bare_world)) \<and>
   (BatteryManager_runCapacityRoutine bare_world = (Rejected (JError (getErrorMessage ''runBatteryCapacityRoutine'')), bare_world) \<and>
   BatteryManager_runHealthRoutine bare_world = (Rejected (JError (getErrorMessage ''runBatteryHealthRoutine'')), bare_world) \<and>
   BatteryManager_runDischargeRoutine (JNum 5) bare_world = (Rejected (JError (getErrorMessage ''runBatteryDischargeRoutine'')), bare_world) \<and>
   BatteryManager_runChargeRoutine (JNum 5) bare_world = (Rejected (JError (getErrorMessage ''runBatteryChargeRoutine'')), bare_world) \<and>
   CpuManager_runCacheRoutine (JNum 5) bare_world = (Rejected (JError (getErrorMessage ''runCpuCacheRoutine'')), bare_world) \<and>
   CpuManager_runStressRoutine (JNum 5) bare_world = (Rejected (JError (getErrorMessage ''runCpuStressRoutine'')), bare_world) \<and>
   MemoryManager_runMemoryRoutine bare_world = (Rejected (JError (getErrorMessage ''runMemoryRoutine'')), bare_world) \<and>
   DPSLDiagnosticsManager_getAvailableRoutines bare_world = (Rejected (JError (getErrorMessage ''getAvailableRoutines'')), bare_world))"
    using checked_and_unchecked_variants [of bare_world "JNum 5" "JNum 7" "\<lparr>id_attr = JNum 7\<rparr>"]
      object absent
    by (simp add: variants_agree_def)
  from present agree object absent differ sample show ?thesis
    by (elim conjE) (intro conjI; assumption)
qed

end
